theory Spec2Isabelle
  imports Main
begin

section \<open>The three iterations of server.js\<close>

text \<open>
  The repository holds three iterations of one Express entry point:
  \<^item> \<open>V1\<close>: src/server.js, the serverless build (exports \<open>serverless(app)\<close>);
  \<^item> \<open>V2\<close>: the first file of src/unnamed/part_000 (lines 1 to 157);
  \<^item> \<open>V3\<close>: the second file of src/unnamed/part_000 (lines 158 to 366), the one with
    \<open>normalizeOriginEntry\<close> and \<open>ALLOW_VERCEL_PREVIEWS\<close>.
  A definition that exists in several iterations carries the iteration as a suffix.
\<close>

datatype variant = V1 | V2 | V3

section \<open>JavaScript values\<close>

text \<open>
  A JavaScript string is a \<^typ>\<open>string\<close>; a \<^typ>\<open>char\<close> stands for a code unit below 256
  (Latin-1). A value that may be \<open>undefined\<close> or \<open>null\<close> is a \<^typ>\<open>string option\<close>.
  \<open>process.env\<close> maps a variable name to its value, or to \<open>undefined\<close>.
\<close>

type_synonym env = "string \<Rightarrow> string option"

datatype js_error = Error string

text \<open>\<open>!!v\<close> for a string or \<open>undefined\<close>: the empty string and \<open>undefined\<close> are falsy.\<close>

fun truthy :: "string option \<Rightarrow> bool" where
  "truthy None = False"
| "truthy (Some s) = (s \<noteq> [])"

text \<open>\<open>a || b\<close>.\<close>

definition js_or :: "string option \<Rightarrow> string option \<Rightarrow> string option" where
  "js_or a b = (if truthy a then a else b)"

text \<open>\<open>xs.filter(Boolean)\<close> on an array of strings, \<open>undefined\<close> and \<open>null\<close>.\<close>

fun filter_Boolean :: "string option list \<Rightarrow> string list" where
  "filter_Boolean [] = []"
| "filter_Boolean (None # xs) = filter_Boolean xs"
| "filter_Boolean (Some s # xs) = (if s = [] then filter_Boolean xs else s # filter_Boolean xs)"

text \<open>\<open>xs.includes(v)\<close> on an array of strings: \<open>undefined\<close> is never an element.\<close>

fun Array_includes :: "string list \<Rightarrow> string option \<Rightarrow> bool" where
  "Array_includes xs None = False"
| "Array_includes xs (Some s) = (s \<in> set xs)"

text \<open>
  \<open>Array.from(new Set(xs))\<close>: a Set keeps its elements in insertion order, and adding an
  element it already holds changes nothing.
\<close>

definition Set_add :: "'a list \<Rightarrow> 'a \<Rightarrow> 'a list" where
  "Set_add acc x = (if x \<in> set acc then acc else acc @ [x])"

definition Array_from_Set :: "'a list \<Rightarrow> 'a list" where
  "Array_from_Set xs = foldl Set_add [] xs"

text \<open>
  \<open>String.prototype.toLowerCase\<close> on one code unit below 256: A to Z, and the Latin-1
  capitals 0xC0 to 0xDE without the multiplication sign 0xD7, move up by 32.
\<close>

definition toLowerCase_char :: "char \<Rightarrow> char" where
  "toLowerCase_char c =
     (let n = (of_char c :: nat)
      in if (65 \<le> n \<and> n \<le> 90) \<or> (192 \<le> n \<and> n \<le> 222 \<and> n \<noteq> 215)
         then char_of (n + 32) else c)"

definition toLowerCase :: "string \<Rightarrow> string" where
  "toLowerCase s = map toLowerCase_char s"

text \<open>
  Matching under the \<open>i\<close> flag of a regular expression without the \<open>u\<close> flag: a character
  of the input matches an ASCII character of the pattern when both are the same ASCII letter
  in either case, or the same character. \<open>canon\<close> folds A to Z to lower case and leaves
  every other code unit alone (a code unit of 128 or more never folds to an ASCII one).
\<close>

definition canon :: "char \<Rightarrow> char" where
  "canon c =
     (let n = (of_char c :: nat)
      in if 65 \<le> n \<and> n \<le> 90 then char_of (n + 32) else c)"

text \<open>
  White space of \<open>String.prototype.trim\<close> below 256: TAB, LF, VT, FF, CR, SPACE and the
  no-break space 0xA0.
\<close>

definition isWhiteSpace :: "char \<Rightarrow> bool" where
  "isWhiteSpace c \<longleftrightarrow> (of_char c :: nat) \<in> {9, 10, 11, 12, 13, 32, 160}"

definition trim :: "string \<Rightarrow> string" where
  "trim s = rev (dropWhile isWhiteSpace (rev (dropWhile isWhiteSpace s)))"

text \<open>The line terminators below 256, which \<open>.\<close> of a regular expression does not match.\<close>

definition isLineTerminator :: "char \<Rightarrow> bool" where
  "isLineTerminator c \<longleftrightarrow> (of_char c :: nat) \<in> {10, 13}"

section \<open>The CORS allow-list\<close>

subsection \<open>V1 and V2: the environment and a fixed list\<close>

definition allowedOrigins_v1 :: "env \<Rightarrow> string list" where
  "allowedOrigins_v1 env = filter_Boolean
     [env ''CLIENT_URL'',
      env ''FRONTEND_URL'',
      Some ''https://frontend-smartai-hydx.vercel.app'',
      Some ''http://localhost:5173'',
      Some ''http://localhost:8080'']"

definition allowedOrigins_v2 :: "env \<Rightarrow> string list" where
  "allowedOrigins_v2 env = filter_Boolean
     [env ''CLIENT_URL'',
      env ''FRONTEND_URL'',
      Some ''https://frontend-smartai-hydx.vercel.app'',
      Some ''http://localhost:5173'',
      Some ''http://localhost:8080'',
      Some ''http://127.0.0.1:5173'',
      Some ''http://127.0.0.1:8080'']"

subsection \<open>V3: normalised entries\<close>

text \<open>\<open>entry.replace(/\/+$/, '')\<close>: the run of slashes at the end of the string is removed.\<close>

definition strip_trailing_slashes :: "string \<Rightarrow> string" where
  "strip_trailing_slashes s = rev (dropWhile (\<lambda>c. c = CHR ''/'') (rev s))"

text \<open>\<open>/^https?:\/\//i.test(entry)\<close>.\<close>

definition test_http_scheme :: "string \<Rightarrow> bool" where
  "test_http_scheme s \<longleftrightarrow>
     map canon (take 7 s) = ''http://'' \<or> map canon (take 8 s) = ''https://''"

definition normalizeOriginEntry :: "string option \<Rightarrow> string option" where
  "normalizeOriginEntry entry =
     (case entry of
        None \<Rightarrow> None
      | Some s \<Rightarrow>
          if s = [] then None
          else let e = strip_trailing_slashes (trim s)
               in if test_http_scheme e then Some e else Some (''https://'' @ e))"

definition rawAllowlist :: "env \<Rightarrow> string option list" where
  "rawAllowlist env =
     [Some ''http://localhost:5173'',
      Some ''http://localhost:8080'',
      Some ''http://127.0.0.1:5173'',
      Some ''http://127.0.0.1:8080'',
      Some ''https://frontend-smartai-hydx.vercel.app'',
      Some ''https://smartai-ten.vercel.app'',
      env ''CLIENT_URL'',
      env ''VERCEL_URL'']"

definition allowedOrigins_v3 :: "env \<Rightarrow> string list" where
  "allowedOrigins_v3 env =
     Array_from_Set (filter_Boolean (map normalizeOriginEntry (rawAllowlist env)))"

text \<open>\<open>String(process.env.ALLOW_VERCEL_PREVIEWS || '').toLowerCase() === 'true'\<close>.\<close>

definition allowVercelPreviews :: "env \<Rightarrow> bool" where
  "allowVercelPreviews env \<longleftrightarrow>
     toLowerCase (case js_or (env ''ALLOW_VERCEL_PREVIEWS'') (Some []) of
                    None \<Rightarrow> [] | Some s \<Rightarrow> s) = ''true''"

text \<open>
  \<open>/^https:\/\/.+\.vercel\.app$/i.test(origin)\<close>. The pattern is anchored at both ends and
  its first and last parts have fixed lengths (8 and 11), so the part matched by \<open>.+\<close> is
  what lies between them: at least one character, none of them a line terminator.
\<close>

definition test_vercel_preview :: "string \<Rightarrow> bool" where
  "test_vercel_preview s \<longleftrightarrow>
     (let n = length s
      in 20 \<le> n
         \<and> map canon (take 8 s) = ''https://''
         \<and> map canon (drop (n - 11) s) = ''.vercel.app''
         \<and> list_all (\<lambda>c. \<not> isLineTerminator c) (take (n - 19) (drop 8 s)))"

section \<open>The origin callback of corsOptions\<close>

text \<open>
  The callback is called once: \<open>callback(null, true)\<close> is \<open>Allow\<close>, \<open>callback(err)\<close> is
  \<open>Deny err\<close>.
\<close>

datatype cb = Allow | Deny js_error

definition corsOptions_origin_v1 :: "env \<Rightarrow> string option \<Rightarrow> cb" where
  "corsOptions_origin_v1 env origin =
     (if \<not> truthy origin then Allow
      else if Array_includes (allowedOrigins_v1 env) origin then Allow
      else Deny (Error ''Not allowed by CORS''))"

definition corsOptions_origin_v2 :: "env \<Rightarrow> string option \<Rightarrow> cb" where
  "corsOptions_origin_v2 env origin =
     (if \<not> truthy origin then Allow
      else if Array_includes (allowedOrigins_v2 env) origin then Allow
      else Deny (Error ''Not allowed by CORS''))"

definition corsOptions_origin_v3 :: "env \<Rightarrow> string option \<Rightarrow> cb" where
  "corsOptions_origin_v3 env origin =
     (if \<not> truthy origin then Allow
      else if Array_includes (allowedOrigins_v3 env) origin then Allow
      else if allowVercelPreviews env \<and> test_vercel_preview (case origin of None \<Rightarrow> [] | Some s \<Rightarrow> s)
      then Allow
      else Deny (Error ''Not allowed by CORS''))"

fun allowedOrigins :: "variant \<Rightarrow> env \<Rightarrow> string list" where
  "allowedOrigins V1 = allowedOrigins_v1"
| "allowedOrigins V2 = allowedOrigins_v2"
| "allowedOrigins V3 = allowedOrigins_v3"

fun corsOptions_origin :: "variant \<Rightarrow> env \<Rightarrow> string option \<Rightarrow> cb" where
  "corsOptions_origin V1 = corsOptions_origin_v1"
| "corsOptions_origin V2 = corsOptions_origin_v2"
| "corsOptions_origin V3 = corsOptions_origin_v3"

section \<open>The database URI\<close>

text \<open>
  V1: \<open>process.env.MONGODB_URI\<close>. V2 and V3:
  \<open>process.env.MONGODB_URI || process.env.MONGO_URI || 'mongodb://localhost:27017/quizapp'\<close>.
\<close>

definition MONGO_URI_v1 :: "env \<Rightarrow> string option" where
  "MONGO_URI_v1 env = env ''MONGODB_URI''"

definition MONGO_URI_v2 :: "env \<Rightarrow> string option" where
  "MONGO_URI_v2 env =
     js_or (js_or (env ''MONGODB_URI'') (env ''MONGO_URI''))
           (Some ''mongodb://localhost:27017/quizapp'')"

definition MONGO_URI_v3 :: "env \<Rightarrow> string option" where
  "MONGO_URI_v3 env =
     js_or (js_or (env ''MONGODB_URI'') (env ''MONGO_URI''))
           (Some ''mongodb://localhost:27017/quizapp'')"

fun MONGO_URI :: "variant \<Rightarrow> env \<Rightarrow> string option" where
  "MONGO_URI V1 = MONGO_URI_v1"
| "MONGO_URI V2 = MONGO_URI_v2"
| "MONGO_URI V3 = MONGO_URI_v3"

section \<open>connectDB\<close>

text \<open>
  JavaScript runs one callback at a time, so what \<open>connectDB\<close> does up to its first
  \<open>await\<close> is one step on the state of the process. That state is
  \<^item> \<open>mongoose.connection.readyState\<close>, which mongoose owns and the program only reads;
  \<^item> \<open>global._connPromise\<close> (V1) or \<open>global._mongoPromise\<close> (V2, V3): \<open>undefined\<close>, or the
    promise stored there, named by its index among the promises created so far;
  \<^item> the promises created so far, each pending, fulfilled, or rejected with an error;
  \<^item> the number of times \<open>mongoose.connect\<close> has been invoked.
\<close>

datatype promise_state = Pending | Fulfilled | Rejected js_error

record db_state =
  readyState :: nat
  global_promise :: "nat option"
  promises :: "promise_state list"
  connect_calls :: nat

text \<open>
  \<open>mongoose.connect(MONGO_URI).then(...)\<close>: one more invocation, and one new pending
  promise, the one that the chain of \<open>then\<close> and \<open>catch\<close> returns.
\<close>

definition mongoose_connect :: "db_state \<Rightarrow> nat \<times> db_state" where
  "mongoose_connect s =
     (length (promises s),
      s\<lparr>promises := promises s @ [Pending], connect_calls := connect_calls s + 1\<rparr>)"

text \<open>
  How that promise settles, from the outcome of the connection attempt (\<open>Inl e\<close>: rejected
  with \<open>e\<close>) and of \<open>createIndexes()\<close> (\<open>None\<close>: \<open>createIndexes\<close> is not defined).
  V1 lets a failure of \<open>createIndexes\<close> reject the promise; V2 and V3 catch it, and rethrow
  the error of the connection attempt from their \<open>catch\<close>.
\<close>

definition settle_v1 :: "js_error + unit \<Rightarrow> (js_error + unit) option \<Rightarrow> promise_state" where
  "settle_v1 conn idx =
     (case conn of
        Inl e \<Rightarrow> Rejected e
      | Inr _ \<Rightarrow> (case idx of
                   None \<Rightarrow> Fulfilled
                 | Some (Inl e) \<Rightarrow> Rejected e
                 | Some (Inr _) \<Rightarrow> Fulfilled))"

definition settle_v2 :: "js_error + unit \<Rightarrow> (js_error + unit) option \<Rightarrow> promise_state" where
  "settle_v2 conn idx = (case conn of Inl e \<Rightarrow> Rejected e | Inr _ \<Rightarrow> Fulfilled)"

definition settle_v3 :: "js_error + unit \<Rightarrow> (js_error + unit) option \<Rightarrow> promise_state" where
  "settle_v3 conn idx = (case conn of Inl e \<Rightarrow> Rejected e | Inr _ \<Rightarrow> Fulfilled)"

fun settle :: "variant \<Rightarrow> js_error + unit \<Rightarrow> (js_error + unit) option \<Rightarrow> promise_state" where
  "settle V1 = settle_v1"
| "settle V2 = settle_v2"
| "settle V3 = settle_v3"

text \<open>
  What a call of \<open>connectDB\<close> does before it yields: it returns at once (\<open>Returned\<close>), or it
  awaits a promise (\<open>Awaiting p\<close>) and then resolves or rejects as that promise does.
\<close>

datatype call = Returned | Awaiting nat

definition connectDB_v1 :: "db_state \<Rightarrow> call \<times> db_state" where
  "connectDB_v1 s =
     (if readyState s = 1 then (Returned, s)
      else case global_promise s of
             None \<Rightarrow> (let (p, s') = mongoose_connect s
                      in (Awaiting p, s'\<lparr>global_promise := Some p\<rparr>))
           | Some p \<Rightarrow> (Awaiting p, s))"

definition connectDB_v2 :: "db_state \<Rightarrow> call \<times> db_state" where
  "connectDB_v2 s =
     (if readyState s = 1 then (Returned, s)
      else case global_promise s of
             Some p \<Rightarrow> (Awaiting p, s)
           | None \<Rightarrow> (let (p, s') = mongoose_connect s
                      in (Awaiting p, s'\<lparr>global_promise := Some p\<rparr>)))"

definition connectDB_v3 :: "db_state \<Rightarrow> call \<times> db_state" where
  "connectDB_v3 s =
     (if readyState s = 1 then (Returned, s)
      else case global_promise s of
             Some p \<Rightarrow> (Awaiting p, s)
           | None \<Rightarrow> (let (p, s') = mongoose_connect s
                      in (Awaiting p, s'\<lparr>global_promise := Some p\<rparr>)))"

fun connectDB :: "variant \<Rightarrow> db_state \<Rightarrow> call \<times> db_state" where
  "connectDB V1 = connectDB_v1"
| "connectDB V2 = connectDB_v2"
| "connectDB V3 = connectDB_v3"

text \<open>
  The result of a call once its promise has settled: \<open>None\<close> while it is pending,
  \<open>Some (Inr ())\<close> when the call resolves, \<open>Some (Inl e)\<close> when it rejects with \<open>e\<close>.
\<close>

definition call_result :: "db_state \<Rightarrow> call \<Rightarrow> (js_error + unit) option" where
  "call_result s c =
     (case c of
        Returned \<Rightarrow> Some (Inr ())
      | Awaiting p \<Rightarrow>
          if p < length (promises s)
          then (case promises s ! p of
                  Pending \<Rightarrow> None
                | Fulfilled \<Rightarrow> Some (Inr ())
                | Rejected e \<Rightarrow> Some (Inl e))
          else None)"

text \<open>
  The events of a process: a request calls \<open>connectDB\<close>; the connection attempt behind a
  pending promise finishes; mongoose changes \<open>readyState\<close>. A settled promise stays as it
  is, and nothing in the program assigns the global a second time or clears it.
\<close>

datatype event =
    Call
  | Settle nat "js_error + unit" "(js_error + unit) option"
  | ReadyState nat

fun step :: "variant \<Rightarrow> db_state \<Rightarrow> event \<Rightarrow> db_state" where
  "step v s Call = snd (connectDB v s)"
| "step v s (Settle p conn idx) =
     (if p < length (promises s) \<and> promises s ! p = Pending
      then s\<lparr>promises := (promises s)[p := settle v conn idx]\<rparr>
      else s)"
| "step v s (ReadyState n) = s\<lparr>readyState := n\<rparr>"

definition run :: "variant \<Rightarrow> db_state \<Rightarrow> event list \<Rightarrow> db_state" where
  "run v s evs = foldl (step v) s evs"

text \<open>A process starts disconnected, with no promise and no connection attempt.\<close>

definition start :: db_state where
  "start = \<lparr>readyState = 0, global_promise = None, promises = [], connect_calls = 0\<rparr>"

subsection \<open>readyState as mongoose drives it\<close>

text \<open>
  Above, \<open>readyState\<close> may change in any way at any time. mongoose (a dependency, not code
  of this repository) documents more: a connection is 0 (disconnected) at first, 2
  (connecting) from the call of \<open>mongoose.connect\<close>, 1 (connected) once the attempt has
  succeeded and 0 again once it has failed; an established connection may be lost and come
  back, and a connection that was never established does not connect by itself. A process
  under this discipline is the state of \<open>connectDB\<close> together with the outcome of the
  connection attempt, once it is known. Its events:
  \<^item> \<open>Request\<close>: a request calls \<open>connectDB\<close>;
  \<^item> \<open>AttemptEnds r\<close>: the connection attempt under way ends. When it fails with \<open>e\<close>,
    the promise of \<open>mongoose.connect\<close> rejects and so does the stored promise, through
    \<open>then\<close> and \<open>catch\<close>, before any other request runs;
  \<^item> \<open>IndexesEnd idx\<close>: after a successful attempt, \<open>createIndexes()\<close> ends (\<open>None\<close>: it
    is not defined) and the stored promise settles;
  \<^item> \<open>ConnectionLost\<close> and \<open>ConnectionBack\<close>: an established connection drops, and
    returns.
\<close>

record process =
  dbstate :: db_state
  attempt :: "(js_error + unit) option"

datatype mongoose_event =
    Request
  | AttemptEnds "js_error + unit"
  | IndexesEnd "(js_error + unit) option"
  | ConnectionLost
  | ConnectionBack

fun process_step :: "variant \<Rightarrow> process \<Rightarrow> mongoose_event \<Rightarrow> process" where
  "process_step v s Request =
     (let d = step v (dbstate s) Call
      in s\<lparr>dbstate := (if connect_calls d = connect_calls (dbstate s) then d else d\<lparr>readyState := 2\<rparr>)\<rparr>)"
| "process_step v s (AttemptEnds r) =
     (case global_promise (dbstate s) of
        None \<Rightarrow> s
      | Some p \<Rightarrow>
          if attempt s \<noteq> None then s
          else (case r of
                  Inl e \<Rightarrow> s\<lparr>dbstate := (step v (dbstate s) (Settle p (Inl e) None))\<lparr>readyState := 0\<rparr>,
                             attempt := Some r\<rparr>
                | Inr u \<Rightarrow> s\<lparr>dbstate := (dbstate s)\<lparr>readyState := 1\<rparr>, attempt := Some r\<rparr>))"
| "process_step v s (IndexesEnd idx) =
     (case global_promise (dbstate s) of
        None \<Rightarrow> s
      | Some p \<Rightarrow>
          (case attempt s of
             Some (Inr u) \<Rightarrow> s\<lparr>dbstate := step v (dbstate s) (Settle p (Inr u) idx)\<rparr>
           | _ \<Rightarrow> s))"
| "process_step v s ConnectionLost =
     (if readyState (dbstate s) = 1 then s\<lparr>dbstate := (dbstate s)\<lparr>readyState := 0\<rparr>\<rparr> else s)"
| "process_step v s ConnectionBack =
     (if attempt s = Some (Inr ()) \<and> readyState (dbstate s) = 0
      then s\<lparr>dbstate := (dbstate s)\<lparr>readyState := 1\<rparr>\<rparr> else s)"

definition process_run :: "variant \<Rightarrow> process \<Rightarrow> mongoose_event list \<Rightarrow> process" where
  "process_run v s evs = foldl (process_step v) s evs"

definition process_start :: process where
  "process_start = \<lparr>dbstate = start, attempt = None\<rparr>"

section \<open>Requests, responses and middleware\<close>

record request =
  req_method :: string
  req_path :: string
  req_origin :: "string option"

datatype json = JString string | JObject "(string \<times> json) list"

record response =
  statusCode :: nat
  headers :: "string \<Rightarrow> string option"
  body :: "json option"

definition setHeader :: "string \<Rightarrow> string \<Rightarrow> response \<Rightarrow> response" where
  "setHeader k v res = res\<lparr>headers := (headers res)(k \<mapsto> v)\<rparr>"

text \<open>A response before any middleware has touched it.\<close>

definition fresh_response :: response where
  "fresh_response = \<lparr>statusCode = 200, headers = Map.empty, body = None\<rparr>"

text \<open>
  What one handler does with a request: it calls \<open>next()\<close>, it calls \<open>next(err)\<close>, it ends
  the response, it rejects with an error that nothing catches, it waits for ever, or
  (\<open>Outside\<close>) it is a handler whose answer is not described here: the six route modules,
  \<open>notFound\<close> and \<open>errorHandler\<close>, which are not under src/, and the root and debug routes,
  whose answers depend on the clock and on the email service.
\<close>

datatype action =
    Next response
  | NextErr js_error response
  | End response
  | Reject js_error response
  | Wait response
  | Outside response

text \<open>
  The middleware that the \<open>cors\<close> package builds from \<open>corsOptions\<close>; the package is a
  dependency, not code of this repository, and this is its documented behaviour for an
  \<open>origin\<close> function and \<open>credentials: true\<close>. An error of the callback goes to \<open>next\<close>.
  Otherwise the request's origin, when it has one, is reflected in
  \<open>Access-Control-Allow-Origin\<close>; a preflight request (method \<open>OPTIONS\<close>) is answered with
  status 204 and any other request is passed on. The method and header lists of a
  preflight answer are left out.
\<close>

definition cors_middleware :: "(string option \<Rightarrow> cb) \<Rightarrow> request \<Rightarrow> response \<Rightarrow> action" where
  "cors_middleware originFn req res =
     (case originFn (req_origin req) of
        Deny e \<Rightarrow> NextErr e res
      | Allow \<Rightarrow>
          (let res1 = (case req_origin req of
                         None \<Rightarrow> res
                       | Some orig \<Rightarrow> if orig = [] then res
                                   else setHeader ''Access-Control-Allow-Origin'' orig res);
               res2 = setHeader ''Vary'' ''Origin'' res1;
               res3 = setHeader ''Access-Control-Allow-Credentials'' ''true'' res2
           in if req_method req = ''OPTIONS'' then End (res3\<lparr>statusCode := 204\<rparr>)
              else Next res3))"

text \<open>The fallback middleware of V1 and of V2, which differ in the header values.\<close>

definition cors_fallback_v1 :: "env \<Rightarrow> request \<Rightarrow> response \<Rightarrow> action" where
  "cors_fallback_v1 env req res =
     (let origin = req_origin req;
          res' = (case origin of
                    None \<Rightarrow> res
                  | Some orig \<Rightarrow>
                      if truthy origin \<and> Array_includes (allowedOrigins_v1 env) origin
                      then setHeader ''Access-Control-Allow-Methods'' ''GET, POST, PUT, DELETE, OPTIONS''
                            (setHeader ''Access-Control-Allow-Headers'' ''Content-Type, Authorization''
                              (setHeader ''Access-Control-Allow-Credentials'' ''true''
                                (setHeader ''Access-Control-Allow-Origin'' orig res)))
                      else res)
      in if req_method req = ''OPTIONS'' then End (res'\<lparr>statusCode := 204\<rparr>) else Next res')"

definition cors_fallback_v2 :: "env \<Rightarrow> request \<Rightarrow> response \<Rightarrow> action" where
  "cors_fallback_v2 env req res =
     (let origin = req_origin req;
          res' = (case origin of
                    None \<Rightarrow> res
                  | Some orig \<Rightarrow>
                      if truthy origin \<and> Array_includes (allowedOrigins_v2 env) origin
                      then setHeader ''Access-Control-Allow-Methods'' ''GET,HEAD,PUT,PATCH,POST,DELETE,OPTIONS''
                            (setHeader ''Access-Control-Allow-Headers''
                                       ''Content-Type, Authorization, X-Requested-With''
                              (setHeader ''Access-Control-Allow-Credentials'' ''true''
                                (setHeader ''Access-Control-Allow-Origin'' orig res)))
                      else res)
      in if req_method req = ''OPTIONS'' then End (res'\<lparr>statusCode := 204\<rparr>) else Next res')"

text \<open>
  The middleware that awaits \<open>connectDB()\<close>, given what that call yields for this request
  (\<open>None\<close>: its promise never settles). V1 has no \<open>try\<close>: a rejection leaves the async
  middleware, and \<open>next\<close> is not called. V2 and V3 pass the error to \<open>next\<close>.
\<close>

definition ensureDB_v1 :: "(js_error + unit) option \<Rightarrow> response \<Rightarrow> action" where
  "ensureDB_v1 db res =
     (case db of None \<Rightarrow> Wait res | Some (Inl e) \<Rightarrow> Reject e res | Some (Inr _) \<Rightarrow> Next res)"

definition ensureDB_v2 :: "(js_error + unit) option \<Rightarrow> response \<Rightarrow> action" where
  "ensureDB_v2 db res =
     (case db of None \<Rightarrow> Wait res | Some (Inl e) \<Rightarrow> NextErr e res | Some (Inr _) \<Rightarrow> Next res)"

definition ensureDB_v3 :: "(js_error + unit) option \<Rightarrow> response \<Rightarrow> action" where
  "ensureDB_v3 db res =
     (case db of None \<Rightarrow> Wait res | Some (Inl e) \<Rightarrow> NextErr e res | Some (Inr _) \<Rightarrow> Next res)"

text \<open>\<open>res.json({ status: 'OK' })\<close>.\<close>

definition res_json :: "json \<Rightarrow> response \<Rightarrow> response" where
  "res_json v res =
     (setHeader ''Content-Type'' ''application/json; charset=utf-8'' res)\<lparr>body := Some v\<rparr>"

definition health :: "response \<Rightarrow> action" where
  "health res = End (res_json (JObject [(''status'', JString ''OK'')]) res)"

section \<open>The application: layers in the order of registration\<close>

datatype handler =
    Cors
  | CorsFallback
  | OriginLogger
  | RequestLogger
  | JsonParser
  | UrlencodedParser
  | CookieParser
  | EnsureDB
  | Router string
  | Root
  | Health
  | DebugNodemailer
  | NotFound
  | ErrorHandler

text \<open>
  \<open>app.use(h)\<close> is \<open>Use None h\<close>, \<open>app.use(prefix, h)\<close> is \<open>Use (Some prefix) h\<close>, and
  \<open>app.get(path, h)\<close>, \<open>app.options(path, h)\<close> are \<open>Route ''GET'' path h\<close>,
  \<open>Route ''OPTIONS'' path h\<close>.
\<close>

datatype layer = Use "string option" handler | Route string string handler

definition app_v1 :: "layer list" where
  "app_v1 =
     [Use None Cors,
      Route ''OPTIONS'' ''*'' Cors,
      Use None CorsFallback,
      Use None JsonParser,
      Use None UrlencodedParser,
      Use None CookieParser,
      Use None EnsureDB,
      Use (Some ''/api/auth'') (Router ''authRoutes''),
      Use (Some ''/api/quiz'') (Router ''quizRoutes''),
      Use (Some ''/api/folders'') (Router ''folderRoutes''),
      Use (Some ''/api/bookmarks'') (Router ''bookmarkRoutes''),
      Use (Some ''/api/students'') (Router ''studentRoutes''),
      Use (Some ''/api/student-quiz'') (Router ''studentQuizRoutes''),
      Route ''GET'' ''/api/health'' Health,
      Use None NotFound,
      Use None ErrorHandler]"

definition app_v2 :: "layer list" where
  "app_v2 =
     [Use None Cors,
      Route ''OPTIONS'' ''*'' Cors,
      Use None CorsFallback,
      Use None JsonParser,
      Use None UrlencodedParser,
      Use None CookieParser,
      Use None EnsureDB,
      Use (Some ''/api/auth'') (Router ''authRoutes''),
      Use (Some ''/api/quiz'') (Router ''quizRoutes''),
      Use (Some ''/api/folders'') (Router ''folderRoutes''),
      Use (Some ''/api/bookmarks'') (Router ''bookmarkRoutes''),
      Use (Some ''/api/students'') (Router ''studentRoutes''),
      Use (Some ''/api/student-quiz'') (Router ''studentQuizRoutes''),
      Route ''GET'' ''/api/health'' Health,
      Route ''GET'' ''/api/debug/test-nodemailer'' DebugNodemailer,
      Use None NotFound,
      Use None ErrorHandler]"

definition app_v3 :: "layer list" where
  "app_v3 =
     [Use None OriginLogger,
      Use None Cors,
      Route ''OPTIONS'' ''*'' Cors,
      Use None JsonParser,
      Use None UrlencodedParser,
      Use None CookieParser,
      Use None RequestLogger,
      Route ''GET'' ''/'' Root,
      Use None EnsureDB,
      Use (Some ''/api/auth'') (Router ''authRoutes''),
      Use (Some ''/api/quiz'') (Router ''quizRoutes''),
      Use (Some ''/api/folders'') (Router ''folderRoutes''),
      Use (Some ''/api/bookmarks'') (Router ''bookmarkRoutes''),
      Use (Some ''/api/students'') (Router ''studentRoutes''),
      Use (Some ''/api/student-quiz'') (Router ''studentQuizRoutes''),
      Route ''GET'' ''/api/health'' Health,
      Route ''GET'' ''/api/debug/test-nodemailer'' DebugNodemailer,
      Use None NotFound,
      Use None ErrorHandler]"

fun app :: "variant \<Rightarrow> layer list" where
  "app V1 = app_v1"
| "app V2 = app_v2"
| "app V3 = app_v3"






section \<open>Dispatch\<close>

text \<open>
  How Express (a dependency) runs the layers: in the order of registration, each layer
  that matches the request. \<open>app.use(prefix, h)\<close> matches a path that starts with the
  prefix and goes on with a slash or ends there; a route matches its method (a \<open>GET\<close>
  route also answers \<open>HEAD\<close>) and its path, with or without one slash at the end; paths
  compare without regard to case. After \<open>next(err)\<close> only error-handling middleware runs.
\<close>

definition use_matches :: "string \<Rightarrow> string \<Rightarrow> bool" where
  "use_matches prefix p \<longleftrightarrow>
     map canon (take (length prefix) p) = map canon prefix
     \<and> (case drop (length prefix) p of [] \<Rightarrow> True | c # _ \<Rightarrow> c = CHR ''/'')"

definition drop_one_slash :: "string \<Rightarrow> string" where
  "drop_one_slash pat = (if pat \<noteq> [] \<and> last pat = CHR ''/'' then butlast pat else pat)"

definition route_path_matches :: "string \<Rightarrow> string \<Rightarrow> bool" where
  "route_path_matches pat p \<longleftrightarrow>
     pat = ''*''
     \<or> map canon p = map canon (drop_one_slash pat)
     \<or> map canon p = map canon (drop_one_slash pat) @ ''/''"

definition route_method_matches :: "string \<Rightarrow> string \<Rightarrow> bool" where
  "route_method_matches m rm \<longleftrightarrow> rm = m \<or> (m = ''GET'' \<and> rm = ''HEAD'')"

text \<open>
  Modelled from the spec: \<open>errorHandler\<close> of ./middleware/errorHandler (not under src/) is
  the "catch-all error middleware", so it is the layer that takes a request after
  \<open>next(err)\<close>; \<open>notFound\<close> is an ordinary middleware.
\<close>

fun is_error_layer :: "layer \<Rightarrow> bool" where
  "is_error_layer (Use p ErrorHandler) = True"
| "is_error_layer l = False"

fun layer_matches :: "layer \<Rightarrow> request \<Rightarrow> bool" where
  "layer_matches (Use None h) req = (h \<noteq> ErrorHandler)"
| "layer_matches (Use (Some prefix) h) req = (h \<noteq> ErrorHandler \<and> use_matches prefix (req_path req))"
| "layer_matches (Route m pat h) req =
     (route_method_matches m (req_method req) \<and> route_path_matches pat (req_path req))"

fun handler_of :: "layer \<Rightarrow> handler" where
  "handler_of (Use p h) = h"
| "handler_of (Route m p h) = h"

text \<open>
  What lies outside the program for one request: what \<open>await connectDB()\<close> yields, and
  whether a body parser rejects the body.
\<close>

record world =
  db_result :: "(js_error + unit) option"
  json_error :: "js_error option"
  urlencoded_error :: "js_error option"

fun exec :: "variant \<Rightarrow> env \<Rightarrow> world \<Rightarrow> handler \<Rightarrow> request \<Rightarrow> response \<Rightarrow> action" where
  "exec v env w Cors req res = cors_middleware (corsOptions_origin v env) req res"
| "exec V1 env w CorsFallback req res = cors_fallback_v1 env req res"
| "exec V2 env w CorsFallback req res = cors_fallback_v2 env req res"
| "exec V3 env w CorsFallback req res = Next res"
| "exec v env w OriginLogger req res = Next res"
| "exec v env w RequestLogger req res = Next res"
| "exec v env w JsonParser req res =
     (case json_error w of None \<Rightarrow> Next res | Some e \<Rightarrow> NextErr e res)"
| "exec v env w UrlencodedParser req res =
     (case urlencoded_error w of None \<Rightarrow> Next res | Some e \<Rightarrow> NextErr e res)"
| "exec v env w CookieParser req res = Next res"
| "exec V1 env w EnsureDB req res = ensureDB_v1 (db_result w) res"
| "exec V2 env w EnsureDB req res = ensureDB_v2 (db_result w) res"
| "exec V3 env w EnsureDB req res = ensureDB_v3 (db_result w) res"
| "exec v env w Health req res = health res"
| "exec v env w h req res = Outside res"

text \<open>
  Where a request ends: a handler described here sent the response (\<open>Sent\<close>); an
  \<open>Outside\<close> handler took the request; the error middleware took an error; a rejection
  stayed unhandled; the request waits for the database for ever; or no layer was left.
  Each outcome carries the response as the layers before it left it.
\<close>

datatype outcome =
    Sent response
  | HandedTo handler response
  | ErrorHandedTo handler js_error response
  | UnhandledRejection js_error response
  | Waiting response
  | Unmatched response
  | UnmatchedError js_error response

fun dispatch_err :: "layer list \<Rightarrow> js_error \<Rightarrow> response \<Rightarrow> outcome" where
  "dispatch_err [] e res = UnmatchedError e res"
| "dispatch_err (l # ls) e res =
     (if is_error_layer l then ErrorHandedTo (handler_of l) e res else dispatch_err ls e res)"

fun dispatch :: "variant \<Rightarrow> env \<Rightarrow> world \<Rightarrow> layer list \<Rightarrow> request \<Rightarrow> response \<Rightarrow> outcome" where
  "dispatch v env w [] req res = Unmatched res"
| "dispatch v env w (l # ls) req res =
     (if \<not> layer_matches l req then dispatch v env w ls req res
      else case exec v env w (handler_of l) req res of
             Next res' \<Rightarrow> dispatch v env w ls req res'
           | NextErr e res' \<Rightarrow> dispatch_err ls e res'
           | End res' \<Rightarrow> Sent res'
           | Reject e res' \<Rightarrow> UnhandledRejection e res'
           | Wait res' \<Rightarrow> Waiting res'
           | Outside res' \<Rightarrow> HandedTo (handler_of l) res')"

definition handle :: "variant \<Rightarrow> env \<Rightarrow> world \<Rightarrow> request \<Rightarrow> outcome" where
  "handle v env w req = dispatch v env w (app v) req fresh_response"

fun response_of :: "outcome \<Rightarrow> response" where
  "response_of (Sent res) = res"
| "response_of (HandedTo h res) = res"
| "response_of (ErrorHandedTo h e res) = res"
| "response_of (UnhandledRejection e res) = res"
| "response_of (Waiting res) = res"
| "response_of (Unmatched res) = res"
| "response_of (UnmatchedError e res) = res"

text \<open>
  The response that a request leads to: the one sent, or the one that goes on with the
  request to a handler not described here, to the error middleware or to the final handler
  of Express. After an unhandled rejection, and while the request waits, no response is
  sent at all.
\<close>

fun delivered :: "outcome \<Rightarrow> response option" where
  "delivered (Sent res) = Some res"
| "delivered (HandedTo h res) = Some res"
| "delivered (ErrorHandedTo h e res) = Some res"
| "delivered (Unmatched res) = Some res"
| "delivered (UnmatchedError e res) = Some res"
| "delivered (UnhandledRejection e res) = None"
| "delivered (Waiting res) = None"

section \<open>Auxiliary notions for the proofs\<close>

text \<open>The response that a handler leaves behind, whatever it did.\<close>

fun response_after :: "action \<Rightarrow> response" where
  "response_after (Next res) = res"
| "response_after (NextErr e res) = res"
| "response_after (End res) = res"
| "response_after (Reject e res) = res"
| "response_after (Wait res) = res"
| "response_after (Outside res) = res"

text \<open>
  The invariant of the connection guard: while the global is \<open>undefined\<close> nothing has
  connected, and once it holds a promise exactly one connection attempt has been made and
  the promise is one of those created.
\<close>

definition connected_once :: "db_state \<Rightarrow> bool" where
  "connected_once s \<longleftrightarrow>
     (case global_promise s of
        None \<Rightarrow> connect_calls s = 0
      | Some p \<Rightarrow> connect_calls s = 1 \<and> p < length (promises s))"

text \<open>
  The invariant of a process under mongoose's discipline: the connection is in state 1
  only after a successful attempt; before the attempt ends the stored promise is pending;
  after a failed attempt it is rejected with the error of the attempt.
\<close>

definition attempt_inv :: "process \<Rightarrow> bool" where
  "attempt_inv s \<longleftrightarrow>
     connected_once (dbstate s)
     \<and> (case attempt s of
          None \<Rightarrow> readyState (dbstate s) \<noteq> 1
                  \<and> (case global_promise (dbstate s) of
                        None \<Rightarrow> True
                      | Some p \<Rightarrow> promises (dbstate s) ! p = Pending)
        | Some (Inl e) \<Rightarrow> readyState (dbstate s) \<noteq> 1
                  \<and> (case global_promise (dbstate s) of
                        None \<Rightarrow> False
                      | Some p \<Rightarrow> promises (dbstate s) ! p = Rejected e)
        | Some (Inr u) \<Rightarrow> global_promise (dbstate s) \<noteq> None)"

section \<open>Concrete environments, requests and states\<close>

definition env_empty :: env where
  "env_empty = Map.empty"

definition env_only_MONGO_URI :: env where
  "env_only_MONGO_URI = [''MONGO_URI'' \<mapsto> ''mongodb://dbstate.example/quiz'']"

definition env_previews :: env where
  "env_previews = [''ALLOW_VERCEL_PREVIEWS'' \<mapsto> ''True'']"

definition world_ok :: world where
  "world_ok = \<lparr>db_result = Some (Inr ()), json_error = None, urlencoded_error = None\<rparr>"

definition req_health :: request where
  "req_health = \<lparr>req_method = ''GET'', req_path = ''/api/health'', req_origin = None\<rparr>"

definition req_health_evil :: request where
  "req_health_evil =
     \<lparr>req_method = ''GET'', req_path = ''/api/health'', req_origin = Some ''http://evil.example''\<rparr>"

definition req_preflight_evil :: request where
  "req_preflight_evil =
     \<lparr>req_method = ''OPTIONS'', req_path = ''/api/quiz'', req_origin = Some ''https://evil.example''\<rparr>"

definition req_preflight_empty :: request where
  "req_preflight_empty =
     \<lparr>req_method = ''OPTIONS'', req_path = ''/api/quiz'', req_origin = Some []\<rparr>"

definition req_local :: request where
  "req_local =
     \<lparr>req_method = ''GET'', req_path = ''/api/quiz'', req_origin = Some ''http://localhost:5173''\<rparr>"

definition ECONNREFUSED :: js_error where
  "ECONNREFUSED = Error ''connect ECONNREFUSED 127.0.0.1:27017''"

section \<open>Properties\<close>

subsection \<open>Evaluation on literals\<close>

lemma canon_upper:
  "canon (CHR ''H'') = CHR ''h''" "canon (CHR ''T'') = CHR ''t''" "canon (CHR ''P'') = CHR ''p''"
  by code_simp+

lemma canon_https: "map canon ''https://'' = ''https://''"
  by code_simp

lemma toLowerCase_True: "toLowerCase ''True'' = ''true''"
  unfolding toLowerCase_def by code_simp

lemma use_matches_health [simp]:
  "use_matches ''/api/auth'' ''/api/health'' = False"
  "use_matches ''/api/quiz'' ''/api/health'' = False"
  "use_matches ''/api/folders'' ''/api/health'' = False"
  "use_matches ''/api/bookmarks'' ''/api/health'' = False"
  "use_matches ''/api/students'' ''/api/health'' = False"
  "use_matches ''/api/student-quiz'' ''/api/health'' = False"
  by code_simp+

lemma route_path_matches_health [simp]:
  "route_path_matches ''/'' ''/api/health'' = False"
  "route_path_matches ''/api/health'' ''/api/health'' = True"
  "route_path_matches ''*'' p = True"
  by (code_simp, code_simp) (simp add: route_path_matches_def)

subsection \<open>Allow-lists\<close>

lemma filter_Boolean_iff: "s \<in> set (filter_Boolean xs) \<longleftrightarrow> Some s \<in> set xs \<and> s \<noteq> []"
  by (induction xs rule: filter_Boolean.induct) auto

lemma set_foldl_Set_add: "set (foldl Set_add acc xs) = set acc \<union> set xs"
  by (induction xs arbitrary: acc) (auto simp: Set_add_def)

lemma distinct_foldl_Set_add: "distinct acc \<Longrightarrow> distinct (foldl Set_add acc xs)"
  by (induction xs arbitrary: acc) (simp_all add: Set_add_def)

lemma set_Array_from_Set: "set (Array_from_Set xs) = set xs"
  by (simp add: Array_from_Set_def set_foldl_Set_add)

lemma allowedOrigins_nonempty: "s \<in> set (allowedOrigins v env) \<Longrightarrow> s \<noteq> []"
  by (cases v)
     (simp_all add: allowedOrigins_v1_def allowedOrigins_v2_def allowedOrigins_v3_def
        set_Array_from_Set filter_Boolean_iff)

lemma allowedOrigins_v3_env_empty:
  "allowedOrigins_v3 env_empty =
     [''http://localhost:5173'', ''http://localhost:8080'', ''http://127.0.0.1:5173'',
      ''http://127.0.0.1:8080'', ''https://frontend-smartai-hydx.vercel.app'',
      ''https://smartai-ten.vercel.app'']"
  by (simp add: allowedOrigins_v3_def rawAllowlist_def env_empty_def normalizeOriginEntry_def
        trim_def strip_trailing_slashes_def test_http_scheme_def isWhiteSpace_def canon_def
        Array_from_Set_def Set_add_def)

lemma allowedOrigins_v3_env_previews:
  "allowedOrigins_v3 env_previews = allowedOrigins_v3 env_empty"
  by (simp add: allowedOrigins_v3_def rawAllowlist_def env_empty_def env_previews_def)

subsection \<open>The origin callback\<close>

lemma allowed_origin_callback:
  "s \<in> set (allowedOrigins v env) \<Longrightarrow> corsOptions_origin v env (Some s) = Allow"
  by (cases v)
     (simp_all add: corsOptions_origin_v1_def corsOptions_origin_v2_def corsOptions_origin_v3_def)

lemma denied_origin_callback:
  assumes "s \<noteq> []" and "s \<notin> set (allowedOrigins v env)"
    and "\<not> (v = V3 \<and> allowVercelPreviews env \<and> test_vercel_preview s)"
  shows "corsOptions_origin v env (Some s) = Deny (Error ''Not allowed by CORS'')"
  using assms
  by (cases v)
     (auto simp: corsOptions_origin_v1_def corsOptions_origin_v2_def corsOptions_origin_v3_def)

lemma test_vercel_preview_nonempty: "test_vercel_preview s \<Longrightarrow> s \<noteq> []"
  by (auto simp: test_vercel_preview_def Let_def)

lemma allowVercelPreviews_iff:
  "allowVercelPreviews env \<longleftrightarrow>
     (\<exists>val. env ''ALLOW_VERCEL_PREVIEWS'' = Some val \<and> toLowerCase val = ''true'')"
proof (cases "env ''ALLOW_VERCEL_PREVIEWS''")
  case None
  then show ?thesis by (simp add: allowVercelPreviews_def js_or_def toLowerCase_def)
next
  case (Some a)
  then show ?thesis
    by (cases "a = []") (simp_all add: allowVercelPreviews_def js_or_def toLowerCase_def)
qed

lemma allowVercelPreviews_env_previews: "allowVercelPreviews env_previews"
  by (simp add: allowVercelPreviews_iff env_previews_def toLowerCase_True)

lemma allowVercelPreviews_env_empty: "\<not> allowVercelPreviews env_empty"
  by (simp add: allowVercelPreviews_iff env_empty_def)

lemma test_vercel_preview_examples:
  "test_vercel_preview ''https://preview-123.vercel.app''"
  "\<not> test_vercel_preview ''https://evil.example''"
  by (simp_all add: test_vercel_preview_def canon_def isLineTerminator_def)

text \<open>
  The strings that \<open>test_vercel_preview\<close> accepts are those of the shape
  https://, something, .vercel.app, with the fixed parts in any letter case and a
  something that is not empty and has no line terminator.
\<close>

lemma test_vercel_preview_split:
  assumes t: "test_vercel_preview s"
  shows "\<exists>p x q. s = p @ x @ q \<and> map canon p = ''https://'' \<and> map canon q = ''.vercel.app''
        \<and> x \<noteq> [] \<and> list_all (\<lambda>c. \<not> isLineTerminator c) x"
proof -
  let ?n = "length s"
  from t have n: "20 \<le> ?n" and p: "map canon (take 8 s) = ''https://''"
    and q: "map canon (drop (?n - 11) s) = ''.vercel.app''"
    and x: "list_all (\<lambda>c. \<not> isLineTerminator c) (take (?n - 19) (drop 8 s))"
    by (simp_all add: test_vercel_preview_def Let_def)
  have "8 + (?n - 19) = ?n - 11" using n by simp
  then have "drop (?n - 19) (drop 8 s) = drop (?n - 11) s" by (simp add: add.commute)
  then have e: "s = take 8 s @ take (?n - 19) (drop 8 s) @ drop (?n - 11) s"
    by (metis append_take_drop_id)
  have ne: "take (?n - 19) (drop 8 s) \<noteq> []" using n by simp
  show ?thesis
    by (rule exI [where x = "take 8 s"], rule exI [where x = "take (?n - 19) (drop 8 s)"],
        rule exI [where x = "drop (?n - 11) s"]) (intro conjI e p q ne x)
qed

lemma test_vercel_preview_join:
  assumes s: "s = p @ x @ q" and p: "map canon p = ''https://''"
    and q: "map canon q = ''.vercel.app''" and x: "x \<noteq> []"
    and lt: "list_all (\<lambda>c. \<not> isLineTerminator c) x"
  shows "test_vercel_preview s"
proof -
  from p have "length (map canon p) = length ''https://''" by simp
  then have lp: "length p = 8" by simp
  from q have "length (map canon q) = length ''.vercel.app''" by simp
  then have lq: "length q = 11" by simp
  have lx: "Suc 0 \<le> length x" using x by (cases x) simp_all
  have a: "take 8 s = p" using lp s by simp
  have b: "drop (length s - 11) s = q" using lp lq s by simp
  have c: "take (length s - 19) (drop 8 s) = x" using lp lq s by simp
  have d: "20 \<le> length s" using lp lq lx s by simp
  show "test_vercel_preview s"
    unfolding test_vercel_preview_def Let_def a b c by (intro conjI d p q lt)
qed

text \<open>
  C8: a request with no Origin header (\<open>origin\<close> is \<open>undefined\<close>) gets
  \<open>callback(null, true)\<close> from the origin callback of every variant, whatever the
  environment, and the CORS middleware never passes an error on for it.
\<close>

theorem no_origin_is_allowed:
  "corsOptions_origin v env None = Allow
   \<and> (req_origin req = None \<longrightarrow> (\<forall>e r. exec v env w Cors req res \<noteq> NextErr e r))"
  by (cases v)
     (simp_all add: corsOptions_origin_v1_def corsOptions_origin_v2_def corsOptions_origin_v3_def
        cors_middleware_def Let_def)

theorem no_origin_is_allowed_witness:
  "corsOptions_origin V3 env_previews None = Allow
   \<and> exec V3 env_previews world_ok Cors req_health fresh_response
       \<noteq> NextErr (Error ''Not allowed by CORS'') fresh_response"
  using no_origin_is_allowed [of V3 env_previews req_health world_ok fresh_response]
  by (simp add: req_health_def)

text \<open>
  C6: in V3, for an origin that is not in \<open>allowedOrigins\<close> and matches the pattern
  https://<something>.vercel.app, the origin callback accepts the origin if and only if
  \<open>ALLOW_VERCEL_PREVIEWS\<close> is set to a value that is \<open>true\<close> once in lower case; when it
  does not accept, it rejects with the error "Not allowed by CORS".
\<close>

theorem vercel_previews_switch:
  assumes "s \<notin> set (allowedOrigins V3 env)" and "test_vercel_preview s"
  shows "(corsOptions_origin V3 env (Some s) = Allow \<longleftrightarrow>
            (\<exists>val. env ''ALLOW_VERCEL_PREVIEWS'' = Some val \<and> toLowerCase val = ''true''))
       \<and> (corsOptions_origin V3 env (Some s) = Allow
            \<or> corsOptions_origin V3 env (Some s) = Deny (Error ''Not allowed by CORS''))"
  using assms test_vercel_preview_nonempty [OF assms(2)]
  by (simp add: corsOptions_origin_v3_def allowVercelPreviews_iff)

theorem vercel_previews_switch_witness:
  "corsOptions_origin V3 env_previews (Some ''https://preview-123.vercel.app'') = Allow
   \<and> corsOptions_origin V3 env_empty (Some ''https://preview-123.vercel.app'')
       = Deny (Error ''Not allowed by CORS'')"
proof -
  have a: "''https://preview-123.vercel.app'' \<notin> set (allowedOrigins V3 env_empty)"
    by (simp add: allowedOrigins_v3_env_empty)
  then have b: "''https://preview-123.vercel.app'' \<notin> set (allowedOrigins V3 env_previews)"
    by (simp add: allowedOrigins_v3_env_previews)
  note t = test_vercel_preview_examples(1)
  from vercel_previews_switch [OF b t] vercel_previews_switch [OF a t]
  show ?thesis
    by (auto simp add: env_previews_def env_empty_def toLowerCase_True)
qed

subsection \<open>The response of an allowed origin\<close>

lemma exec_keeps_origin_header:
  assumes "req_origin req = Some s" and "s \<in> set (allowedOrigins v env)"
    and "headers res ''Access-Control-Allow-Origin'' = Some s"
  shows "headers (response_after (exec v env w h req res)) ''Access-Control-Allow-Origin'' = Some s"
proof -
  have ne: "s \<noteq> []" using assms(2) by (rule allowedOrigins_nonempty)
  have cb: "corsOptions_origin v env (Some s) = Allow"
    using assms(2) by (rule allowed_origin_callback)
  show ?thesis
  proof (cases h)
    case Cors
    then show ?thesis using assms ne cb by (simp add: cors_middleware_def setHeader_def Let_def)
  next
    case CorsFallback
    then show ?thesis using assms ne
      by (cases v) (simp_all add: cors_fallback_v1_def cors_fallback_v2_def setHeader_def Let_def)
  next
    case EnsureDB
    then show ?thesis using assms
      by (cases v) (simp_all add: ensureDB_v1_def ensureDB_v2_def ensureDB_v3_def
          split: option.split sum.split)
  next
    case Health
    then show ?thesis using assms by (simp add: health_def res_json_def setHeader_def)
  qed (use assms in \<open>simp_all split: option.split\<close>)
qed

lemma dispatch_err_response: "response_of (dispatch_err ls e res) = res"
  by (induction ls) simp_all

lemma dispatch_keeps_origin_header:
  assumes "req_origin req = Some s" and "s \<in> set (allowedOrigins v env)"
  shows "headers res ''Access-Control-Allow-Origin'' = Some s \<Longrightarrow>
     headers (response_of (dispatch v env w ls req res)) ''Access-Control-Allow-Origin'' = Some s"
proof (induction ls arbitrary: res)
  case Nil
  then show ?case by simp
next
  case (Cons l ls)
  show ?case
  proof (cases "layer_matches l req")
    case False
    then show ?thesis using Cons by simp
  next
    case True
    from exec_keeps_origin_header [OF assms Cons.prems, of w "handler_of l"]
    have k: "headers (response_after (exec v env w (handler_of l) req res))
               ''Access-Control-Allow-Origin'' = Some s" .
    show ?thesis
    proof (cases "exec v env w (handler_of l) req res")
      case (Next res')
      with k True Cons.IH [of res'] show ?thesis by simp
    qed (use k True in \<open>simp_all add: dispatch_err_response\<close>)
  qed
qed

lemma cors_sets_origin_header:
  assumes "req_origin req = Some s" and "s \<in> set (allowedOrigins v env)"
  shows "headers (response_after (exec v env w Cors req res)) ''Access-Control-Allow-Origin'' = Some s"
  using assms allowedOrigins_nonempty [OF assms(2)] allowed_origin_callback [OF assms(2)]
  by (simp add: cors_middleware_def setHeader_def Let_def)

lemma app_reaches_Cors:
  "\<exists>ls. dispatch v env w (app v) req fresh_response
          = dispatch v env w (Use None Cors # ls) req fresh_response"
  by (cases v) (auto simp: app_v1_def app_v2_def app_v3_def)

lemma handle_keeps_origin_header:
  assumes "req_origin req = Some s" and "s \<in> set (allowedOrigins v env)"
  shows "headers (response_of (handle v env w req)) ''Access-Control-Allow-Origin'' = Some s"
proof -
  from app_reaches_Cors [of v env w req]
  obtain ls where d: "handle v env w req = dispatch v env w (Use None Cors # ls) req fresh_response"
    by (auto simp: handle_def)
  note c = cors_sets_origin_header [OF assms, of w fresh_response]
  show ?thesis
  proof (cases "exec v env w Cors req fresh_response")
    case (Next res')
    with c dispatch_keeps_origin_header [OF assms, of res' w ls] show ?thesis
      unfolding d by simp
  qed (use c in \<open>simp_all add: d dispatch_err_response\<close>)
qed

lemma fallback_sets_origin_header:
  assumes "req_origin req = Some s" and "s \<in> set (allowedOrigins v env)" and "v \<noteq> V3"
  shows "headers (response_after (exec v env w CorsFallback req res)) ''Access-Control-Allow-Origin''
           = Some s"
  using assms allowedOrigins_nonempty [OF assms(2)]
  by (cases v) (simp_all add: cors_fallback_v1_def cors_fallback_v2_def setHeader_def Let_def)

lemma delivered_response_of: "delivered out = Some r \<Longrightarrow> response_of out = r"
  by (cases out) simp_all

lemma dispatch_err_delivered: "delivered (dispatch_err ls e res) \<noteq> None"
  by (induction ls) simp_all

lemma exec_db_ok:
  assumes "db_result w = Some (Inr u)"
  shows "(\<forall>e r. exec v env w h req res \<noteq> Reject e r) \<and> (\<forall>r. exec v env w h req res \<noteq> Wait r)"
proof (cases h)
  case Cors
  then show ?thesis
    by (simp add: cors_middleware_def Let_def split: cb.split)
next
  case CorsFallback
  then show ?thesis
    by (cases v) (simp_all add: cors_fallback_v1_def cors_fallback_v2_def Let_def)
next
  case EnsureDB
  then show ?thesis using assms
    by (cases v) (simp_all add: ensureDB_v1_def ensureDB_v2_def ensureDB_v3_def)
next
  case Health
  then show ?thesis by (simp add: health_def)
qed (simp_all split: option.split)

lemma dispatch_db_ok:
  assumes "db_result w = Some (Inr u)"
  shows "delivered (dispatch v env w ls req res) \<noteq> None"
proof (induction ls arbitrary: res)
  case Nil
  show ?case by simp
next
  case (Cons l ls)
  show ?case
  proof (cases "layer_matches l req")
    case False
    then show ?thesis using Cons by simp
  next
    case True
    from exec_db_ok [OF assms, of v env "handler_of l" req res]
    have k: "\<And>e r. exec v env w (handler_of l) req res \<noteq> Reject e r"
      "\<And>r. exec v env w (handler_of l) req res \<noteq> Wait r" by simp_all
    show ?thesis
    proof (cases "exec v env w (handler_of l) req res")
      case (Next res')
      with True Cons.IH [of res'] show ?thesis by simp
    qed (use k True in \<open>simp_all add: dispatch_err_delivered\<close>)
  qed
qed

text \<open>
  C2: for a request whose Origin header is an element of \<open>allowedOrigins\<close>, in every
  variant, the origin callback answers \<open>callback(null, true)\<close>. The fallback middleware of
  V1 and of V2, taken by itself and whatever response it is given, sets the header
  Access-Control-Allow-Origin to exactly that origin. Every response that the request leads
  to, whatever its method and path, carries the header with exactly that origin as its
  value, never a wildcard; and the request leads to a response whenever
  \<open>await connectDB()\<close> resolves.
\<close>

theorem allowed_origin_is_echoed:
  assumes "req_origin req = Some s" and "s \<in> set (allowedOrigins v env)"
  shows "corsOptions_origin v env (req_origin req) = Allow
     \<and> (v \<noteq> V3 \<longrightarrow>
          headers (response_after (exec v env w CorsFallback req res))
            ''Access-Control-Allow-Origin'' = Some s)
     \<and> (\<forall>r. delivered (handle v env w req) = Some r \<longrightarrow>
              headers r ''Access-Control-Allow-Origin'' = Some s)
     \<and> (db_result w = Some (Inr ()) \<longrightarrow> delivered (handle v env w req) \<noteq> None)"
proof (intro conjI impI allI)
  show "corsOptions_origin v env (req_origin req) = Allow"
    using assms allowed_origin_callback by simp
next
  assume "v \<noteq> V3"
  with assms show "headers (response_after (exec v env w CorsFallback req res))
                     ''Access-Control-Allow-Origin'' = Some s"
    by (rule fallback_sets_origin_header)
next
  fix r assume "delivered (handle v env w req) = Some r"
  then have "response_of (handle v env w req) = r" by (rule delivered_response_of)
  with handle_keeps_origin_header [OF assms, of w]
  show "headers r ''Access-Control-Allow-Origin'' = Some s" by simp
next
  assume "db_result w = Some (Inr ())"
  then show "delivered (handle v env w req) \<noteq> None"
    unfolding handle_def by (rule dispatch_db_ok)
qed

theorem allowed_origin_is_echoed_witness:
  "corsOptions_origin V1 env_empty (req_origin req_local) = Allow
   \<and> headers (response_after (exec V1 env_empty world_ok CorsFallback req_local fresh_response))
       ''Access-Control-Allow-Origin'' = Some ''http://localhost:5173''
   \<and> (\<exists>r. delivered (handle V1 env_empty world_ok req_local) = Some r
          \<and> headers r ''Access-Control-Allow-Origin'' = Some ''http://localhost:5173'')
   \<and> (\<exists>r. delivered (handle V3 env_empty world_ok req_local) = Some r
          \<and> headers r ''Access-Control-Allow-Origin'' = Some ''http://localhost:5173'')"
proof -
  have a: "req_origin req_local = Some ''http://localhost:5173''"
    by (simp add: req_local_def)
  have b1: "''http://localhost:5173'' \<in> set (allowedOrigins V1 env_empty)"
    by (simp add: allowedOrigins_v1_def env_empty_def)
  have b3: "''http://localhost:5173'' \<in> set (allowedOrigins V3 env_empty)"
    by (simp add: allowedOrigins_v3_env_empty)
  have ok: "db_result world_ok = Some (Inr ())"
    by (simp add: world_ok_def)
  have ne: "V1 \<noteq> V3" by simp
  note t1 = allowed_origin_is_echoed [OF a b1, of world_ok fresh_response]
  note t3 = allowed_origin_is_echoed [OF a b3, of world_ok fresh_response]
  note cb = t1 [THEN conjunct1]
  note fb = t1 [THEN conjunct2, THEN conjunct1, THEN mp, OF ne]
  note h1 = t1 [THEN conjunct2, THEN conjunct2, THEN conjunct1]
  note d1 = t1 [THEN conjunct2, THEN conjunct2, THEN conjunct2, THEN mp, OF ok]
  note h3 = t3 [THEN conjunct2, THEN conjunct2, THEN conjunct1]
  note d3 = t3 [THEN conjunct2, THEN conjunct2, THEN conjunct2, THEN mp, OF ok]
  from d1 obtain r1 where r1: "delivered (handle V1 env_empty world_ok req_local) = Some r1"
    by (cases "delivered (handle V1 env_empty world_ok req_local)") simp_all
  from d3 obtain r3 where r3: "delivered (handle V3 env_empty world_ok req_local) = Some r3"
    by (cases "delivered (handle V3 env_empty world_ok req_local)") simp_all
  from h1 r1 have e1: "\<exists>r. delivered (handle V1 env_empty world_ok req_local) = Some r
          \<and> headers r ''Access-Control-Allow-Origin'' = Some ''http://localhost:5173''"
    by (intro exI [where x = r1] conjI) simp_all
  from h3 r3 have e3: "\<exists>r. delivered (handle V3 env_empty world_ok req_local) = Some r
          \<and> headers r ''Access-Control-Allow-Origin'' = Some ''http://localhost:5173''"
    by (intro exI [where x = r3] conjI) simp_all
  show ?thesis by (intro conjI cb fb e1 e3)
qed

subsection \<open>The rejection of any other origin\<close>

text \<open>
  C3, as stated, fails for an Origin header whose value is the empty string: it is not in
  \<open>allowedOrigins\<close>, and \<open>!origin\<close> holds for it, so the callback allows it, and a preflight
  request with it is answered with status 204.
\<close>

theorem empty_origin_header_is_allowed:
  "req_origin req_preflight_empty = Some []
   \<and> [] \<notin> set (allowedOrigins V1 env_empty)
   \<and> corsOptions_origin V1 env_empty (req_origin req_preflight_empty) = Allow
   \<and> handle V1 env_empty world_ok req_preflight_empty
       = Sent (response_of (handle V1 env_empty world_ok req_preflight_empty))
   \<and> statusCode (response_of (handle V1 env_empty world_ok req_preflight_empty)) = 204"
  by (simp add: allowedOrigins_v1_def corsOptions_origin_v1_def env_empty_def
        req_preflight_empty_def handle_def app_v1_def cors_middleware_def Let_def)

text \<open>
  C3, amended: for a request whose Origin header is a string that is not empty and not in
  \<open>allowedOrigins\<close> (and, in V3, does not match the https://*.vercel.app pattern while
  previews are enabled), the origin callback is invoked with an Error whose message is
  "Not allowed by CORS", and the request, whatever its method (a preflight OPTIONS
  included) and path, goes to the error-handling middleware with that error and with no
  header set.
\<close>

theorem disallowed_origin_is_rejected:
  assumes "req_origin req = Some s" and "s \<noteq> []" and "s \<notin> set (allowedOrigins v env)"
    and "\<not> (v = V3 \<and> allowVercelPreviews env \<and> test_vercel_preview s)"
  shows "corsOptions_origin v env (req_origin req) = Deny (Error ''Not allowed by CORS'')
     \<and> handle v env w req = ErrorHandedTo ErrorHandler (Error ''Not allowed by CORS'') fresh_response"
proof -
  have cb: "corsOptions_origin v env (Some s) = Deny (Error ''Not allowed by CORS'')"
    using assms(2-4) by (rule denied_origin_callback)
  have "handle v env w req = ErrorHandedTo ErrorHandler (Error ''Not allowed by CORS'') fresh_response"
    using cb assms(1)
    by (cases v) (simp_all add: handle_def app_v1_def app_v2_def app_v3_def cors_middleware_def)
  with cb assms(1) show ?thesis by simp
qed

theorem disallowed_origin_is_rejected_witness:
  "corsOptions_origin V3 env_previews (req_origin req_preflight_evil)
     = Deny (Error ''Not allowed by CORS'')
   \<and> handle V3 env_previews world_ok req_preflight_evil
     = ErrorHandedTo ErrorHandler (Error ''Not allowed by CORS'') fresh_response"
proof -
  have a: "req_origin req_preflight_evil = Some ''https://evil.example''"
    by (simp add: req_preflight_evil_def)
  have b: "''https://evil.example'' \<noteq> []" by simp
  have c: "''https://evil.example'' \<notin> set (allowedOrigins V3 env_previews)"
    by (simp add: allowedOrigins_v3_env_previews allowedOrigins_v3_env_empty)
  have d: "\<not> (V3 = V3 \<and> allowVercelPreviews env_previews
              \<and> test_vercel_preview ''https://evil.example'')"
    by (simp add: test_vercel_preview_examples)
  from disallowed_origin_is_rejected [OF a b c d] show ?thesis .
qed

subsection \<open>The health route\<close>

lemma disallowed_origin_dispatch:
  assumes "corsOptions_origin v env (req_origin req) = Deny e"
  shows "handle v env w req = ErrorHandedTo ErrorHandler e fresh_response"
  using assms
  by (cases v) (simp_all add: handle_def app_v1_def app_v2_def app_v3_def cors_middleware_def)

text \<open>
  C4, as stated, fails: a GET request to /api/health with an Origin header that the
  allow-list does not hold is stopped by the CORS middleware, which is registered before the
  route; it goes to the error-handling middleware and no JSON body has been written.
\<close>

theorem health_blocked_by_cors:
  "req_method req_health_evil = ''GET''
   \<and> req_path req_health_evil = ''/api/health''
   \<and> handle V1 env_empty world_ok req_health_evil
       = ErrorHandedTo ErrorHandler (Error ''Not allowed by CORS'') fresh_response
   \<and> body (response_of (handle V1 env_empty world_ok req_health_evil)) = None"
proof -
  have "corsOptions_origin V1 env_empty (req_origin req_health_evil)
          = Deny (Error ''Not allowed by CORS'')"
    by (simp add: corsOptions_origin_v1_def allowedOrigins_v1_def env_empty_def req_health_evil_def)
  from disallowed_origin_dispatch [OF this, of world_ok]
  show ?thesis by (simp add: req_health_evil_def fresh_response_def)
qed

text \<open>
  C4, amended: in every variant, a GET request to /api/health that the middleware
  registered before the route passes on (the origin callback allows it, the body parsers
  do not reject it, and \<open>await connectDB()\<close> resolves) is answered by the health route with
  status 200 and the JSON body {"status": "OK"}.
\<close>

theorem health_returns_OK:
  assumes "req_method req = ''GET''" and "req_path req = ''/api/health''"
    and "corsOptions_origin v env (req_origin req) = Allow"
    and "json_error w = None" and "urlencoded_error w = None"
    and "db_result w = Some (Inr ())"
  shows "\<exists>res. handle v env w req = Sent res
           \<and> body res = Some (JObject [(''status'', JString ''OK'')])
           \<and> statusCode res = 200"
  using assms
  by (cases v)
     (simp_all add: handle_def app_v1_def app_v2_def app_v3_def cors_middleware_def Let_def
        route_method_matches_def cors_fallback_v1_def cors_fallback_v2_def
        ensureDB_v1_def ensureDB_v2_def ensureDB_v3_def health_def res_json_def setHeader_def
        fresh_response_def split: option.split)

theorem health_returns_OK_witness:
  "\<exists>res. handle V1 env_empty world_ok req_health = Sent res
         \<and> body res = Some (JObject [(''status'', JString ''OK'')])
         \<and> statusCode res = 200"
proof -
  have a: "req_method req_health = ''GET''" and b: "req_path req_health = ''/api/health''"
    by (simp_all add: req_health_def)
  have c: "corsOptions_origin V1 env_empty (req_origin req_health) = Allow"
    by (simp add: req_health_def corsOptions_origin_v1_def)
  have d: "json_error world_ok = None" and e: "urlencoded_error world_ok = None"
    and f: "db_result world_ok = Some (Inr ())"
    by (simp_all add: world_ok_def)
  from health_returns_OK [OF a b c d e f] show ?thesis .
qed

subsection \<open>normalizeOriginEntry\<close>

lemma strip_trailing_slashes_last:
  "strip_trailing_slashes s \<noteq> [] \<Longrightarrow> last (strip_trailing_slashes s) \<noteq> CHR ''/''"
proof -
  let ?d = "dropWhile (\<lambda>c. c = CHR ''/'') (rev s)"
  assume "strip_trailing_slashes s \<noteq> []"
  then have "?d \<noteq> []" by (simp add: strip_trailing_slashes_def)
  then have "hd ?d \<noteq> CHR ''/''" by (rule hd_dropWhile)
  then show ?thesis by (simp add: strip_trailing_slashes_def last_rev)
qed

lemma strip_trailing_slashes_id:
  assumes "s \<noteq> []" and "last s \<noteq> CHR ''/''"
  shows "strip_trailing_slashes s = s"
proof -
  from assms have "dropWhile (\<lambda>c. c = CHR ''/'') (rev s) = rev s"
    by (simp add: dropWhile_eq_self_iff hd_rev)
  then show ?thesis by (simp add: strip_trailing_slashes_def)
qed

lemma trim_id:
  assumes "s \<noteq> []" and h: "\<not> isWhiteSpace (hd s)" and l: "\<not> isWhiteSpace (last s)"
  shows "trim s = s"
proof -
  from h have a: "dropWhile isWhiteSpace s = s"
    by (simp add: dropWhile_eq_self_iff)
  from l have b: "dropWhile isWhiteSpace (rev s) = rev s"
    by (simp add: dropWhile_eq_self_iff hd_rev)
  show ?thesis by (simp add: trim_def a b)
qed

lemma canon_h_not_space: "canon c = CHR ''h'' \<Longrightarrow> \<not> isWhiteSpace c"
  by (auto simp: canon_def isWhiteSpace_def Let_def split: if_splits)

lemma test_http_scheme_hd:
  assumes "test_http_scheme s"
  shows "s \<noteq> [] \<and> \<not> isWhiteSpace (hd s)"
proof (cases s)
  case Nil
  with assms show ?thesis by (simp add: test_http_scheme_def)
next
  case (Cons c cs)
  with assms have "canon c = CHR ''h''"
    by (auto simp: test_http_scheme_def take_Cons')
  with Cons show ?thesis by (simp add: canon_h_not_space)
qed

lemma test_http_scheme_prefixed: "test_http_scheme (''https://'' @ e)"
  using canon_https by (simp add: test_http_scheme_def)

lemma normalizeOriginEntry_Some:
  assumes "normalizeOriginEntry entry = Some t"
  obtains s e where "entry = Some s" and "s \<noteq> []" and "e = strip_trailing_slashes (trim s)"
    and "test_http_scheme e \<and> t = e \<or> \<not> test_http_scheme e \<and> t = ''https://'' @ e"
  using assms
  by (cases entry) (auto simp: normalizeOriginEntry_def Let_def split: if_splits)

lemma normalizeOriginEntry_scheme:
  assumes "normalizeOriginEntry entry = Some t"
  shows "test_http_scheme t"
  using assms
proof (rule normalizeOriginEntry_Some)
  fix s e
  assume "test_http_scheme e \<and> t = e \<or> \<not> test_http_scheme e \<and> t = ''https://'' @ e"
  then show ?thesis
  proof (elim disjE conjE)
    assume "test_http_scheme e" and "t = e"
    then show ?thesis by simp
  next
    assume "t = ''https://'' @ e"
    then show ?thesis by (simp only: test_http_scheme_prefixed)
  qed
qed

lemma normalizeOriginEntry_last:
  assumes "normalizeOriginEntry entry = Some t" and "t \<noteq> ''https://''"
  shows "t \<noteq> [] \<and> last t \<noteq> CHR ''/''"
  using assms(1)
proof (rule normalizeOriginEntry_Some)
  fix s e
  assume e: "e = strip_trailing_slashes (trim s)"
    and c: "test_http_scheme e \<and> t = e \<or> \<not> test_http_scheme e \<and> t = ''https://'' @ e"
  from c assms(2) have ne: "e \<noteq> []"
    using test_http_scheme_hd by auto
  then have "last e \<noteq> CHR ''/''"
    unfolding e by (rule strip_trailing_slashes_last)
  with c ne show ?thesis by auto
qed

lemma normalizeOriginEntry_fixed:
  assumes n: "normalizeOriginEntry entry = Some t" and t: "t \<noteq> ''https://''"
    and ws: "\<not> isWhiteSpace (last t)"
  shows "normalizeOriginEntry (Some t) = Some t"
proof -
  from normalizeOriginEntry_scheme [OF n] have sch: "test_http_scheme t" .
  from test_http_scheme_hd [OF sch] have ne: "t \<noteq> []" and hd: "\<not> isWhiteSpace (hd t)"
    by simp_all
  from normalizeOriginEntry_last [OF n t] have sl: "last t \<noteq> CHR ''/''" by simp
  have "trim t = t" using ne hd ws by (rule trim_id)
  moreover have "strip_trailing_slashes t = t" using ne sl by (rule strip_trailing_slashes_id)
  ultimately show ?thesis using ne sch by (simp add: normalizeOriginEntry_def)
qed

lemma normalizeOriginEntry_examples:
  "normalizeOriginEntry (Some ''/'') = Some ''https://''"
  "normalizeOriginEntry (Some ''https://'') = Some ''https://https:''"
  "normalizeOriginEntry (Some ''a /'') = Some ''https://a ''"
  "normalizeOriginEntry (Some ''https://a '') = Some ''https://a''"
  "normalizeOriginEntry (Some ''frontend-xyz.vercel.app/'') = Some ''https://frontend-xyz.vercel.app''"
  by (simp_all add: normalizeOriginEntry_def trim_def strip_trailing_slashes_def
        test_http_scheme_def isWhiteSpace_def canon_def)

lemma normalizeOriginEntry_upper_case:
  "normalizeOriginEntry (Some ''HTTP://a'') = Some ''HTTP://a''"
  by (simp add: normalizeOriginEntry_def trim_def strip_trailing_slashes_def test_http_scheme_def
        isWhiteSpace_def canon_upper)
     (simp add: canon_def)

text \<open>
  C9, as stated, fails. An entry of slashes only gives the bare \<open>https://\<close>, which ends in
  a slash and which a second pass turns into \<open>https://https:\<close>; white space before the
  trailing slashes survives the first pass and is trimmed by the second; and the scheme of
  an entry is kept in the case it was written in.
\<close>

theorem normalizeOriginEntry_not_idempotent:
  "normalizeOriginEntry (Some ''/'') = Some ''https://''
   \<and> normalizeOriginEntry (normalizeOriginEntry (Some ''/'')) \<noteq> normalizeOriginEntry (Some ''/'')
   \<and> normalizeOriginEntry (normalizeOriginEntry (Some ''a /'')) \<noteq> normalizeOriginEntry (Some ''a /'')
   \<and> normalizeOriginEntry (Some ''HTTP://a'') = Some ''HTTP://a''"
  by (simp add: normalizeOriginEntry_examples normalizeOriginEntry_upper_case)

text \<open>
  C9, amended: \<open>normalizeOriginEntry\<close> maps \<open>undefined\<close> to \<open>null\<close>. Every result \<open>t\<close> that
  is not \<open>null\<close> begins with http:// or https:// in some letter case; unless \<open>t\<close> is the bare
  \<open>https://\<close>, it has no trailing slash; and unless \<open>t\<close> is the bare \<open>https://\<close> or ends in
  white space, normalising again changes nothing. The \<open>allowedOrigins\<close> list of V3 has no
  duplicates, and each of its entries is a non-empty string that is the result of
  normalising an entry of the raw list.
\<close>

theorem normalizeOriginEntry_normal_form:
  "normalizeOriginEntry None = None
   \<and> (normalizeOriginEntry entry = Some t \<longrightarrow>
        test_http_scheme t
      \<and> (t \<noteq> ''https://'' \<longrightarrow> last t \<noteq> CHR ''/'')
      \<and> (t \<noteq> ''https://'' \<and> \<not> isWhiteSpace (last t) \<longrightarrow>
           normalizeOriginEntry (normalizeOriginEntry entry) = normalizeOriginEntry entry))
   \<and> distinct (allowedOrigins_v3 env)
   \<and> (\<forall>s \<in> set (allowedOrigins_v3 env).
        s \<noteq> [] \<and> (\<exists>r \<in> set (rawAllowlist env). normalizeOriginEntry r = Some s))"
proof (intro conjI impI ballI)
  show "normalizeOriginEntry None = None" by (simp add: normalizeOriginEntry_def)
  show "distinct (allowedOrigins_v3 env)"
    by (simp add: allowedOrigins_v3_def Array_from_Set_def distinct_foldl_Set_add)
next
  assume "normalizeOriginEntry entry = Some t"
  then show "test_http_scheme t" by (rule normalizeOriginEntry_scheme)
next
  assume "normalizeOriginEntry entry = Some t" and "t \<noteq> ''https://''"
  then show "last t \<noteq> CHR ''/''" using normalizeOriginEntry_last by blast
next
  assume n: "normalizeOriginEntry entry = Some t"
    and "t \<noteq> ''https://'' \<and> \<not> isWhiteSpace (last t)"
  then have "normalizeOriginEntry (Some t) = Some t"
    using normalizeOriginEntry_fixed by blast
  then show "normalizeOriginEntry (normalizeOriginEntry entry) = normalizeOriginEntry entry"
    by (simp add: n)
next
  fix s assume "s \<in> set (allowedOrigins_v3 env)"
  then have m: "Some s \<in> set (map normalizeOriginEntry (rawAllowlist env))" and ne: "s \<noteq> []"
    by (simp_all add: allowedOrigins_v3_def set_Array_from_Set filter_Boolean_iff)
  from ne show "s \<noteq> []" .
  from m show "\<exists>r \<in> set (rawAllowlist env). normalizeOriginEntry r = Some s"
    by (metis (no_types) imageE list.set_map)
qed

theorem normalizeOriginEntry_normal_form_witness:
  "normalizeOriginEntry (Some ''frontend-xyz.vercel.app/'') = Some ''https://frontend-xyz.vercel.app''
   \<and> test_http_scheme ''https://frontend-xyz.vercel.app''
   \<and> normalizeOriginEntry (normalizeOriginEntry (Some ''frontend-xyz.vercel.app/''))
       = normalizeOriginEntry (Some ''frontend-xyz.vercel.app/'')
   \<and> distinct (allowedOrigins_v3 env_empty)"
proof -
  note n = normalizeOriginEntry_examples(5)
  have a: "''https://frontend-xyz.vercel.app'' \<noteq> ''https://''" by simp
  have b: "\<not> isWhiteSpace (last ''https://frontend-xyz.vercel.app'')"
    by (simp add: isWhiteSpace_def)
  note t = normalizeOriginEntry_normal_form
             [of "Some ''frontend-xyz.vercel.app/''" "''https://frontend-xyz.vercel.app''" env_empty]
  note k = t [THEN conjunct2, THEN conjunct1, THEN mp, OF n]
  note i1 = k [THEN conjunct1]
  note i2 = k [THEN conjunct2, THEN conjunct2, THEN mp, OF conjI [OF a b]]
  note i3 = t [THEN conjunct2, THEN conjunct2, THEN conjunct1]
  show ?thesis by (intro conjI n i1 i2 i3)
qed

subsection \<open>The database URI\<close>

text \<open>
  C5, as stated, fails for V1: with only \<open>MONGO_URI\<close> set, V1 does not take its value.
\<close>

theorem MONGO_URI_v1_no_fallback:
  "env_only_MONGO_URI ''MONGODB_URI'' = None
   \<and> env_only_MONGO_URI ''MONGO_URI'' = Some ''mongodb://dbstate.example/quiz''
   \<and> MONGO_URI V1 env_only_MONGO_URI = None"
  by (simp add: MONGO_URI_v1_def env_only_MONGO_URI_def)

text \<open>
  C5, amended: V1 takes the URI from \<open>MONGODB_URI\<close> alone. V2 and V3 take \<open>MONGODB_URI\<close>
  when it is set and not empty, otherwise \<open>MONGO_URI\<close> when that is set and not empty,
  otherwise \<open>mongodb://localhost:27017/quizapp\<close>.
\<close>

theorem MONGO_URI_chain:
  "MONGO_URI V1 env = env ''MONGODB_URI''
   \<and> (v \<noteq> V1 \<longrightarrow>
        (truthy (env ''MONGODB_URI'') \<longrightarrow> MONGO_URI v env = env ''MONGODB_URI'')
      \<and> (\<not> truthy (env ''MONGODB_URI'') \<and> truthy (env ''MONGO_URI'')
           \<longrightarrow> MONGO_URI v env = env ''MONGO_URI'')
      \<and> (\<not> truthy (env ''MONGODB_URI'') \<and> \<not> truthy (env ''MONGO_URI'')
           \<longrightarrow> MONGO_URI v env = Some ''mongodb://localhost:27017/quizapp''))"
  by (cases v) (simp_all add: MONGO_URI_v1_def MONGO_URI_v2_def MONGO_URI_v3_def js_or_def)

theorem MONGO_URI_chain_witness:
  "MONGO_URI V2 env_only_MONGO_URI = Some ''mongodb://dbstate.example/quiz''
   \<and> MONGO_URI V3 env_empty = Some ''mongodb://localhost:27017/quizapp''
   \<and> MONGO_URI V1 env_only_MONGO_URI = None"
  using MONGO_URI_chain [of env_only_MONGO_URI V2] MONGO_URI_chain [of env_empty V3]
  by (simp add: env_only_MONGO_URI_def env_empty_def)

subsection \<open>The connection guard\<close>

lemma connectDB_eq:
  "connectDB v s =
     (if readyState s = 1 then (Returned, s)
      else case global_promise s of
             Some p \<Rightarrow> (Awaiting p, s)
           | None \<Rightarrow> (Awaiting (length (promises s)),
                      s\<lparr>promises := promises s @ [Pending],
                        connect_calls := connect_calls s + 1,
                        global_promise := Some (length (promises s))\<rparr>))"
  by (cases v)
     (simp_all add: connectDB_v1_def connectDB_v2_def connectDB_v3_def mongoose_connect_def
        split: option.split)

lemma run_Nil: "run v s [] = s"
  by (simp add: run_def)

lemma run_Cons: "run v s (ev # evs) = run v (step v s ev) evs"
  by (simp add: run_def)

lemma step_connected_once: "connected_once s \<Longrightarrow> connected_once (step v s ev)"
  by (cases ev) (auto simp: connected_once_def connectDB_eq split: option.splits)

lemma run_connected_once: "connected_once s \<Longrightarrow> connected_once (run v s evs)"
  by (induction evs arbitrary: s) (simp_all add: run_Nil run_Cons step_connected_once)

lemma start_connected_once: "connected_once start"
  by (simp add: connected_once_def start_def)

lemma connected_once_le: "connected_once s \<Longrightarrow> connect_calls s \<le> 1"
  by (auto simp: connected_once_def split: option.splits)

lemma settle_rejects: "settle v (Inl e) idx = Rejected e"
  by (cases v) (simp_all add: settle_v1_def settle_v2_def settle_v3_def)

lemma run_two_calls:
  "run V1 start [Call, Call, ReadyState 2, Call]
     = \<lparr>readyState = 2, global_promise = Some 0, promises = [Pending], connect_calls = 1\<rparr>"
  by (simp add: run_def start_def connectDB_v1_def mongoose_connect_def)

lemma run_connected:
  "run V1 start [Call, Settle 0 (Inr ()) None, ReadyState 1, Call]
     = \<lparr>readyState = 1, global_promise = Some 0, promises = [Fulfilled], connect_calls = 1\<rparr>"
  by (simp add: run_def start_def connectDB_v1_def mongoose_connect_def settle_v1_def)

text \<open>
  C1: in every variant and after every sequence of events of a process (calls of
  \<open>connectDB\<close>, the end of the connection attempt, changes of \<open>readyState\<close>),
  \<open>mongoose.connect\<close> has been invoked at most once. Once the global holds a promise, a
  call of \<open>connectDB\<close> changes nothing, so it starts no connection: it awaits that very
  promise, or returns at once when \<open>readyState\<close> is 1. And whenever \<open>readyState\<close> is 1,
  \<open>connectDB\<close> returns at once and leaves the state as it is.
\<close>

theorem connectDB_connects_at_most_once:
  "connect_calls (run v start evs) \<le> 1
   \<and> (global_promise (run v start evs) = Some p \<longrightarrow>
        connectDB v (run v start evs) =
          (if readyState (run v start evs) = 1 then Returned else Awaiting p, run v start evs))
   \<and> (readyState (run v start evs) = 1 \<longrightarrow>
        connectDB v (run v start evs) = (Returned, run v start evs))"
  using connected_once_le [OF run_connected_once [OF start_connected_once, of v evs]]
  by (simp add: connectDB_eq)

theorem connectDB_connects_at_most_once_witness:
  "connect_calls (run V1 start [Call, Call, ReadyState 2, Call]) = 1
   \<and> connectDB V1 (run V1 start [Call, Call, ReadyState 2, Call])
       = (Awaiting 0, run V1 start [Call, Call, ReadyState 2, Call])
   \<and> connectDB V1 (run V1 start [Call, Settle 0 (Inr ()) None, ReadyState 1, Call])
       = (Returned, run V1 start [Call, Settle 0 (Inr ()) None, ReadyState 1, Call])"
proof -
  have a: "global_promise (run V1 start [Call, Call, ReadyState 2, Call]) = Some 0"
    and b: "readyState (run V1 start [Call, Call, ReadyState 2, Call]) = 2"
    and c: "connect_calls (run V1 start [Call, Call, ReadyState 2, Call]) = 1"
    unfolding run_two_calls by simp_all
  have d: "readyState (run V1 start [Call, Settle 0 (Inr ()) None, ReadyState 1, Call]) = 1"
    unfolding run_connected by simp
  from connectDB_connects_at_most_once [of V1 "[Call, Call, ReadyState 2, Call]" 0]
       connectDB_connects_at_most_once [of V1 "[Call, Settle 0 (Inr ()) None, ReadyState 1, Call]" 0]
       a b c d
  show ?thesis by simp
qed

subsection \<open>A failed connection attempt\<close>

lemma inv_Request: "attempt_inv s \<Longrightarrow> attempt_inv (process_step v s Request)"
  apply (cases "attempt s"; cases "global_promise (dbstate s)")
  apply (simp_all add: attempt_inv_def connected_once_def connectDB_eq Let_def nth_append
          split: sum.splits)
  done

lemma inv_AttemptEnds: "attempt_inv s \<Longrightarrow> attempt_inv (process_step v s (AttemptEnds r))"
  apply (cases "attempt s"; cases "global_promise (dbstate s)"; cases r)
  apply (simp_all add: attempt_inv_def connected_once_def settle_rejects split: sum.splits)
  done

lemma inv_IndexesEnd: "attempt_inv s \<Longrightarrow> attempt_inv (process_step v s (IndexesEnd idx))"
  apply (cases "attempt s"; cases "global_promise (dbstate s)")
  apply (simp_all add: attempt_inv_def connected_once_def split: sum.splits)
  done

lemma inv_ConnectionLost: "attempt_inv s \<Longrightarrow> attempt_inv (process_step v s ConnectionLost)"
  apply (cases "attempt s"; cases "global_promise (dbstate s)")
  apply (simp_all add: attempt_inv_def connected_once_def split: sum.splits)
  done

lemma inv_ConnectionBack: "attempt_inv s \<Longrightarrow> attempt_inv (process_step v s ConnectionBack)"
  apply (cases "attempt s"; cases "global_promise (dbstate s)")
  apply (simp_all add: attempt_inv_def connected_once_def split: sum.splits)
  done

lemma process_step_inv: "attempt_inv s \<Longrightarrow> attempt_inv (process_step v s ev)"
  by (cases ev)
     (simp_all only: inv_Request inv_AttemptEnds inv_IndexesEnd inv_ConnectionLost inv_ConnectionBack)

lemma process_step_attempt:
  "attempt s = Some (Inl e) \<Longrightarrow> attempt (process_step v s ev) = Some (Inl e)"
  by (cases ev) (auto simp: Let_def split: option.splits sum.splits)

lemma process_run_Nil: "process_run v s [] = s"
  by (simp add: process_run_def)

lemma process_run_Cons: "process_run v s (ev # evs) = process_run v (process_step v s ev) evs"
  by (simp add: process_run_def)

lemma process_run_inv: "attempt_inv s \<Longrightarrow> attempt_inv (process_run v s evs)"
  by (induction evs arbitrary: s) (simp_all add: process_run_Nil process_run_Cons process_step_inv)

lemma process_run_attempt:
  "attempt s = Some (Inl e) \<Longrightarrow> attempt (process_run v s evs) = Some (Inl e)"
  by (induction evs arbitrary: s)
     (simp_all add: process_run_Nil process_run_Cons process_step_attempt)

lemma process_start_inv: "attempt_inv process_start"
  by (simp add: attempt_inv_def process_start_def connected_once_def start_def)

lemma attempt_inv_rejected:
  assumes "attempt_inv s" and "attempt s = Some (Inl e)"
  shows "readyState (dbstate s) \<noteq> 1 \<and> connect_calls (dbstate s) = 1
     \<and> (\<exists>p. global_promise (dbstate s) = Some p \<and> p < length (promises (dbstate s))
            \<and> promises (dbstate s) ! p = Rejected e)"
  using assms
  by (cases "global_promise (dbstate s)") (simp_all add: attempt_inv_def connected_once_def)

lemma process_run_failed_attempt:
  "process_run V2 process_start [Request, Request, AttemptEnds (Inl ECONNREFUSED)]
     = \<lparr>dbstate = \<lparr>readyState = 0, global_promise = Some 0, promises = [Rejected ECONNREFUSED],
               connect_calls = 1\<rparr>,
        attempt = Some (Inl ECONNREFUSED)\<rparr>"
  by (simp add: process_run_def process_start_def start_def connectDB_v2_def
        mongoose_connect_def settle_v2_def Let_def)

lemma process_run_after_failed_attempt:
  "process_run V2
     (process_run V2 process_start [Request, Request, AttemptEnds (Inl ECONNREFUSED)])
     [Request, ConnectionBack, IndexesEnd None, Request]
     = \<lparr>dbstate = \<lparr>readyState = 0, global_promise = Some 0, promises = [Rejected ECONNREFUSED],
               connect_calls = 1\<rparr>,
        attempt = Some (Inl ECONNREFUSED)\<rparr>"
  unfolding process_run_failed_attempt
  by (simp add: process_run_def connectDB_v2_def)

text \<open>
  C10: take any process, in any variant, whose connection attempt has ended in a rejection
  with an error \<open>e\<close>. Whatever happens afterwards, \<open>mongoose.connect\<close> has been invoked
  exactly once and is not invoked again; the global holds a promise that is rejected with
  \<open>e\<close>; and every call of \<open>connectDB\<close> leaves the state as it is, awaits that promise and so
  rejects with the same \<open>e\<close>.
\<close>

theorem rejected_connect_is_cached:
  assumes s: "s = process_run v process_start evs"
    and a: "attempt s = Some (Inl e)"
    and s': "s' = process_run v s evs'"
  shows "connect_calls (dbstate s') = 1
     \<and> (\<exists>p. global_promise (dbstate s') = Some p
            \<and> promises (dbstate s') ! p = Rejected e
            \<and> connectDB v (dbstate s') = (Awaiting p, dbstate s')
            \<and> call_result (dbstate s') (Awaiting p) = Some (Inl e))"
proof -
  have i: "attempt_inv s'"
    unfolding s' s by (intro process_run_inv process_start_inv)
  have a': "attempt s' = Some (Inl e)"
    unfolding s' using a by (rule process_run_attempt)
  from attempt_inv_rejected [OF i a']
  obtain p where r: "readyState (dbstate s') \<noteq> 1" and c: "connect_calls (dbstate s') = 1"
    and g: "global_promise (dbstate s') = Some p" and l: "p < length (promises (dbstate s'))"
    and j: "promises (dbstate s') ! p = Rejected e"
    by blast
  have "connectDB v (dbstate s') = (Awaiting p, dbstate s')"
    using r g by (simp add: connectDB_eq)
  moreover have "call_result (dbstate s') (Awaiting p) = Some (Inl e)"
    using l j by (simp add: call_result_def)
  ultimately show ?thesis using c g j by simp
qed

theorem rejected_connect_is_cached_witness:
  "attempt (process_run V2 process_start [Request, Request, AttemptEnds (Inl ECONNREFUSED)])
     = Some (Inl ECONNREFUSED)
   \<and> connect_calls (dbstate (process_run V2
         (process_run V2 process_start [Request, Request, AttemptEnds (Inl ECONNREFUSED)])
         [Request, ConnectionBack, IndexesEnd None, Request])) = 1
   \<and> (\<exists>p. connectDB V2 (dbstate (process_run V2
               (process_run V2 process_start [Request, Request, AttemptEnds (Inl ECONNREFUSED)])
               [Request, ConnectionBack, IndexesEnd None, Request]))
            = (Awaiting p, dbstate (process_run V2
               (process_run V2 process_start [Request, Request, AttemptEnds (Inl ECONNREFUSED)])
               [Request, ConnectionBack, IndexesEnd None, Request]))
          \<and> call_result (dbstate (process_run V2
               (process_run V2 process_start [Request, Request, AttemptEnds (Inl ECONNREFUSED)])
               [Request, ConnectionBack, IndexesEnd None, Request])) (Awaiting p)
            = Some (Inl ECONNREFUSED))"
proof -
  have a: "attempt (process_run V2 process_start [Request, Request, AttemptEnds (Inl ECONNREFUSED)])
             = Some (Inl ECONNREFUSED)"
    unfolding process_run_failed_attempt by simp
  note t = rejected_connect_is_cached
             [OF refl a refl, of "[Request, ConnectionBack, IndexesEnd None, Request]"]
  from t [THEN conjunct2] obtain p where
    p: "connectDB V2 (dbstate (process_run V2
               (process_run V2 process_start [Request, Request, AttemptEnds (Inl ECONNREFUSED)])
               [Request, ConnectionBack, IndexesEnd None, Request]))
            = (Awaiting p, dbstate (process_run V2
               (process_run V2 process_start [Request, Request, AttemptEnds (Inl ECONNREFUSED)])
               [Request, ConnectionBack, IndexesEnd None, Request]))"
    and q: "call_result (dbstate (process_run V2
               (process_run V2 process_start [Request, Request, AttemptEnds (Inl ECONNREFUSED)])
               [Request, ConnectionBack, IndexesEnd None, Request])) (Awaiting p)
            = Some (Inl ECONNREFUSED)"
    by (elim exE conjE)
  show ?thesis
    by (intro conjI a t [THEN conjunct1] exI [where x = p] p q)
qed

subsection \<open>Route registration\<close>



end
